theory Spec2Isabelle
  imports Complex_Main "HOL-Library.Word"
begin

section \<open>JavaScript values\<close>

text \<open>
  A JavaScript string is a sequence of UTF-16 code units. Source literals are ASCII
  (apart from the fallback phrase) and are written with \<open>lit\<close>.
\<close>

type_synonym js_string = "16 word list"

definition lit :: "string \<Rightarrow> js_string" where
  "lit s = map of_char s"

text \<open>
  The values the handlers see: what \<open>JSON.parse\<close> yields (null, booleans, numbers,
  strings, arrays, objects with their own properties in order), plus \<open>undefined\<close>,
  the result of reading a property that is not there. A number carries the value of
  the parsed double; the source only ever tests numbers for truthiness.
\<close>

datatype js_value =
    JUndefined
  | JNull
  | JBool bool
  | JNum rat
  | JStr js_string
  | JArr "js_value list"
  | JObj "(js_string \<times> js_value) list"

text \<open>\<open>!!v\<close>: false for undefined, null, false, 0, the empty string.\<close>

fun truthy :: "js_value \<Rightarrow> bool" where
  "truthy JUndefined = False"
| "truthy JNull = False"
| "truthy (JBool b) = b"
| "truthy (JNum n) = (n \<noteq> 0)"
| "truthy (JStr s) = (s \<noteq> [])"
| "truthy (JArr xs) = True"
| "truthy (JObj kvs) = True"

text \<open>\<open>a || b\<close>\<close>

definition js_or :: "js_value \<Rightarrow> js_value \<Rightarrow> js_value" where
  "js_or a b = (if truthy a then a else b)"

text \<open>
  \<open>v?.k\<close> for the property names the source reads (type, payload, message, slate,
  content, children, text, trace, traces, client_key, clientKey, key, description,
  sessionId, userText): none of them is defined on a built-in prototype, so the read
  yields the object's own property, and \<open>undefined\<close> on every other value. The plain
  \<open>t.type\<close> and the destructuring of \<open>req.body || {}\<close> are only reached with a truthy
  operand, where \<open>.\<close> and \<open>?.\<close> agree.
\<close>

fun js_get :: "js_value \<Rightarrow> js_string \<Rightarrow> js_value" where
  "js_get (JObj kvs) k = (case map_of kvs k of Some v \<Rightarrow> v | None \<Rightarrow> JUndefined)"
| "js_get JUndefined k = JUndefined"
| "js_get JNull k = JUndefined"
| "js_get (JBool b) k = JUndefined"
| "js_get (JNum n) k = JUndefined"
| "js_get (JStr s) k = JUndefined"
| "js_get (JArr xs) k = JUndefined"

text \<open>\<open>typeof v === "string"\<close> and \<open>Array.isArray(v)\<close>\<close>

fun is_string :: "js_value \<Rightarrow> bool" where
  "is_string (JStr s) = True"
| "is_string JUndefined = False"
| "is_string JNull = False"
| "is_string (JBool b) = False"
| "is_string (JNum n) = False"
| "is_string (JArr xs) = False"
| "is_string (JObj kvs) = False"

fun isArray :: "js_value \<Rightarrow> bool" where
  "isArray (JArr xs) = True"
| "isArray JUndefined = False"
| "isArray JNull = False"
| "isArray (JBool b) = False"
| "isArray (JNum n) = False"
| "isArray (JStr s) = False"
| "isArray (JObj kvs) = False"

text \<open>The code units of a value that \<open>typeof\<close> has shown to be a string.\<close>

fun string_of :: "js_value \<Rightarrow> js_string" where
  "string_of (JStr s) = s"
| "string_of JUndefined = []"
| "string_of JNull = []"
| "string_of (JBool b) = []"
| "string_of (JNum n) = []"
| "string_of (JArr xs) = []"
| "string_of (JObj kvs) = []"

subsection \<open>String operations\<close>

text \<open>
  \<open>String.prototype.trim\<close> strips ECMAScript white space and line terminators from
  both ends: TAB, LF, VT, FF, CR, SP, NBSP, U+1680, U+2000 to U+200A, U+2028, U+2029,
  U+202F, U+205F, U+3000 and U+FEFF, each a single code unit.
\<close>

definition white_space :: "16 word \<Rightarrow> bool" where
  "white_space c \<longleftrightarrow> c \<in> set
     [0x9, 0xA, 0xB, 0xC, 0xD, 0x20, 0xA0, 0x1680,
      0x2000, 0x2001, 0x2002, 0x2003, 0x2004, 0x2005, 0x2006, 0x2007, 0x2008, 0x2009, 0x200A,
      0x2028, 0x2029, 0x202F, 0x205F, 0x3000, 0xFEFF]"

definition trim :: "js_string \<Rightarrow> js_string" where
  "trim s = rev (dropWhile white_space (rev (dropWhile white_space s)))"

text \<open>\<open>xs.join(sep)\<close> on an array of strings\<close>

fun join :: "js_string \<Rightarrow> js_string list \<Rightarrow> js_string" where
  "join sep [] = []"
| "join sep [x] = x"
| "join sep (x # y # ys) = x @ sep @ join sep (y # ys)"

text \<open>\<open>s.startsWith(n)\<close> and \<open>s.includes(n)\<close> on strings\<close>

fun starts_with :: "js_string \<Rightarrow> js_string \<Rightarrow> bool" where
  "starts_with s [] = True"
| "starts_with [] (n # ns) = False"
| "starts_with (c # cs) (n # ns) = (c = n \<and> starts_with cs ns)"

fun str_includes :: "js_string \<Rightarrow> js_string \<Rightarrow> bool" where
  "str_includes [] n = (n = [])"
| "str_includes (c # cs) n = (starts_with (c # cs) n \<or> str_includes cs n)"

section \<open>Reply extractor (\<open>extractVoiceflowReply\<close>, server.js lines 68 to 101)\<close>

text \<open>
  The inner loop over \<open>children\<close> (lines 91 to 94): a child whose \<open>text\<close> is a string
  with a non-blank trim pushes that trim onto \<open>texts\<close>.
\<close>

fun children_loop :: "js_value list \<Rightarrow> js_string list \<Rightarrow> js_string list" where
  "children_loop [] texts = texts"
| "children_loop (ch # chs) texts =
     (case js_get ch (lit ''text'') of
        JStr tx \<Rightarrow>
          if trim tx \<noteq> [] then children_loop chs (texts @ [trim tx])
          else children_loop chs texts
      | _ \<Rightarrow> children_loop chs texts)"

text \<open>
  The loop over the blocks of \<open>content\<close> (lines 88 to 95). \<open>texts\<close> is declared
  before this loop (line 87), so it runs on through all blocks of the event.
\<close>

fun blocks_loop :: "js_value list \<Rightarrow> js_string list \<Rightarrow> js_string list" where
  "blocks_loop [] texts = texts"
| "blocks_loop (block # blocks) texts =
     (case js_get block (lit ''children'') of
        JArr children \<Rightarrow> blocks_loop blocks (children_loop children texts)
      | _ \<Rightarrow> blocks_loop blocks texts)"

text \<open>Lines 85 to 97: the rich-text branch of one event.\<close>

definition slate_branch :: "js_value \<Rightarrow> js_string list \<Rightarrow> js_string list" where
  "slate_branch t parts =
     (case js_get (js_get (js_get t (lit ''payload'')) (lit ''slate'')) (lit ''content'') of
        JArr content \<Rightarrow>
          (let texts = blocks_loop content []
           in if texts \<noteq> [] then parts @ [join (lit '' '') texts] else parts)
      | _ \<Rightarrow> parts)"

text \<open>Lines 76 to 97: the body of the loop over \<open>traces\<close>, for one event \<open>t\<close>.\<close>

definition trace_body :: "js_value \<Rightarrow> js_string list \<Rightarrow> js_string list" where
  "trace_body t parts =
     (if \<not> truthy t \<or> js_get t (lit ''type'') \<noteq> JStr (lit ''text'') then parts
      else case js_get (js_get t (lit ''payload'')) (lit ''message'') of
             JStr m \<Rightarrow> if trim m \<noteq> [] then parts @ [trim m] else slate_branch t parts
           | _ \<Rightarrow> slate_branch t parts)"

fun traces_loop :: "js_value list \<Rightarrow> js_string list \<Rightarrow> js_string list" where
  "traces_loop [] parts = parts"
| "traces_loop (t # ts) parts = traces_loop ts (trace_body t parts)"

definition extractVoiceflowReply :: "js_value \<Rightarrow> js_string" where
  "extractVoiceflowReply traces =
     (case traces of
        JArr ts \<Rightarrow> trim (join [0xA] (traces_loop ts []))
      | _ \<Rightarrow> [])"

section \<open>Environment, platform, outbound calls\<close>

text \<open>
  The module constants of lines 18 to 25, after their \<open>|| ""\<close> defaulting.
\<close>

record env =
  VF_STATE_ID :: js_string
  VF_API_KEY :: js_string
  VF_RUNTIME_BASE :: js_string
  DID_BASIC_USER :: js_string
  DID_BASIC_PASS :: js_string
  DID_ALLOWED_DOMAIN :: js_string

text \<open>An exception value; the handlers read only its \<open>message\<close>.\<close>

datatype js_error = Error js_string | TypeError js_string | URIError js_string

fun message :: "js_error \<Rightarrow> js_string" where
  "message (Error m) = m"
| "message (TypeError m) = m"
| "message (URIError m) = m"

text \<open>
  Built-ins of the runtime that the handlers call and that are no code of the
  repository: \<open>encodeURIComponent\<close> (throws a URIError on a lone surrogate),
  \<open>Buffer.from(raw, "utf8").toString("base64")\<close>, and the TypeError the engine
  raises when line 214 calls \<open>includes\<close> on a value that has no such method.
\<close>

record platform =
  encodeURIComponent :: "js_string \<Rightarrow> js_error + js_string"
  base64 :: "js_string \<Rightarrow> js_string"
  not_a_function :: js_error

text \<open>
  One outbound \<open>fetch\<close>: method, URL, Authorization header and the value given to
  \<open>JSON.stringify\<close> as body, if any (the Content-Type header is the same constant in
  every call). Its outcome: the promise rejects, or resolves to a response of which
  the handlers read \<open>status\<close>, \<open>ok\<close> and \<open>json()\<close>; \<open>None\<close> is a body that is not JSON,
  where \<open>json()\<close> rejects.
\<close>

datatype request =
  Request (req_method: js_string) (req_url: js_string) (req_auth: js_string)
    (req_body: "js_value option")

datatype fetch_result = Rejected js_error | Resolved nat "js_value option"

definition ok :: "nat \<Rightarrow> bool" where
  "ok st \<longleftrightarrow> 200 \<le> st \<and> st \<le> 299"

text \<open>What a handler sends: \<open>res.status(s).json(b)\<close>; \<open>res.json(b)\<close> is status 200.\<close>

datatype reply = Reply (status: nat) (body: js_value)

definition requireEnv :: "js_string \<Rightarrow> js_string \<Rightarrow> js_error + unit" where
  "requireEnv name v =
     (if v = [] then Inl (Error (lit ''Missing env var: '' @ name)) else Inr ())"

definition didBasicAuthHeader :: "env \<Rightarrow> platform \<Rightarrow> js_error + js_string" where
  "didBasicAuthHeader e pf =
     (case requireEnv (lit ''DID_BASIC_USER'') (DID_BASIC_USER e) of
        Inl err \<Rightarrow> Inl err
      | Inr _ \<Rightarrow>
     (case requireEnv (lit ''DID_BASIC_PASS'') (DID_BASIC_PASS e) of
        Inl err \<Rightarrow> Inl err
      | Inr _ \<Rightarrow>
          Inr (lit ''Basic '' @ base64 pf (DID_BASIC_USER e @ lit '':'' @ DID_BASIC_PASS e))))"

section \<open>Voiceflow proxy (\<open>POST /vf/reply\<close>, server.js lines 108 to 162)\<close>

text \<open>The fallback phrase of line 156, with U+00CE and U+0103 as code units.\<close>

definition fallback_reply :: js_string where
  "fallback_reply =
     [0xCE] @ lit ''mi pare r'' @ [0x103] @ lit ''u, nu am un r'' @ [0x103] @ lit ''spuns acum.''"

text \<open>
  Lines 133 to 158: the call has been issued (it is in the log whatever follows);
  \<open>r.json().catch(() => null)\<close> turns a body that is not JSON into \<open>null\<close>.
\<close>

definition vf_respond :: "fetch_result \<Rightarrow> request \<Rightarrow> (js_error + reply) \<times> request list" where
  "vf_respond r req =
     (case r of
        Rejected err \<Rightarrow> (Inl err, [req])
      | Resolved st js \<Rightarrow>
          (let data = (case js of None \<Rightarrow> JNull | Some d \<Rightarrow> d)
           in if \<not> ok st then
                (Inr (Reply st (JObj
                   [(lit ''error'', JStr (lit ''voiceflow_error'')),
                    (lit ''status'', JNum (of_nat st)),
                    (lit ''details'',
                       js_or data
                         (JObj [(lit ''message'',
                                 JStr (lit ''Voiceflow returned non-JSON error''))]))])),
                 [req])
              else
                (let traces =
                       (if isArray data then data
                        else js_or (js_or (js_get data (lit ''trace''))
                                          (js_get data (lit ''traces''))) data);
                     replyText = js_or (JStr (extractVoiceflowReply traces)) (JStr fallback_reply)
                 in (Inr (Reply 200 (JObj [(lit ''replyText'', replyText)])), [req]))))"

text \<open>
  Lines 110 to 131: the two \<open>requireEnv\<close> calls, the destructuring of
  \<open>req.body || {}\<close>, the two validations, then the URL and the request.
\<close>

definition vf_reply_try ::
  "env \<Rightarrow> platform \<Rightarrow> js_value \<Rightarrow> fetch_result \<Rightarrow> (js_error + reply) \<times> request list" where
  "vf_reply_try e pf rbody r =
     (case requireEnv (lit ''VF_STATE_ID'') (VF_STATE_ID e) of
        Inl err \<Rightarrow> (Inl err, [])
      | Inr _ \<Rightarrow>
     (case requireEnv (lit ''VF_API_KEY'') (VF_API_KEY e) of
        Inl err \<Rightarrow> (Inl err, [])
      | Inr _ \<Rightarrow>
     (let b = js_or rbody (JObj []);
          sessionId = js_get b (lit ''sessionId'');
          userText = js_get b (lit ''userText'')
      in if \<not> truthy sessionId \<or> \<not> is_string sessionId then
           (Inr (Reply 400 (JObj [(lit ''error'', JStr (lit ''sessionId is required (string)''))])), [])
         else if \<not> truthy userText \<or> \<not> is_string userText then
           (Inr (Reply 400 (JObj [(lit ''error'', JStr (lit ''userText is required (string)''))])), [])
         else
           (case encodeURIComponent pf (VF_STATE_ID e) of
              Inl err \<Rightarrow> (Inl err, [])
            | Inr enc_state \<Rightarrow>
           (case encodeURIComponent pf (string_of sessionId) of
              Inl err \<Rightarrow> (Inl err, [])
            | Inr enc_session \<Rightarrow>
                vf_respond r
                  (Request (lit ''POST'')
                     (VF_RUNTIME_BASE e @ lit ''/state/'' @ enc_state @ lit ''/user/''
                        @ enc_session @ lit ''/interact'')
                     (lit ''Bearer '' @ VF_API_KEY e)
                     (Some (JObj [(lit ''request'',
                        JObj [(lit ''type'', JStr (lit ''text'')),
                              (lit ''payload'', JStr (trim (string_of userText)))])]))))))))"

text \<open>Lines 159 to 161: the \<open>catch\<close> of the handler.\<close>

definition server_error :: "js_error \<Rightarrow> reply" where
  "server_error err =
     Reply 500 (JObj [(lit ''error'', JStr (lit ''server_error'')),
                      (lit ''message'', JStr (message err))])"

definition vf_reply :: "env \<Rightarrow> platform \<Rightarrow> js_value \<Rightarrow> fetch_result \<Rightarrow> reply \<times> request list" where
  "vf_reply e pf rbody r =
     (case vf_reply_try e pf rbody r of
        (Inl err, calls) \<Rightarrow> (server_error err, calls)
      | (Inr rep, calls) \<Rightarrow> (rep, calls))"

section \<open>D-ID client key (\<open>GET /did/client-key\<close>, server.js lines 168 to 259)\<close>

text \<open>The two module variables of lines 168 and 169, initially \<open>null\<close> and \<open>0\<close>.\<close>

record cache =
  cachedClientKey :: js_value
  cachedAt :: int

definition initial_cache :: cache where
  "initial_cache = \<lparr>cachedClientKey = JNull, cachedAt = 0\<rparr>"

text \<open>
  The read of line 174, with \<open>now\<close> the value of \<open>Date.now()\<close> there, and the write of
  lines 193/194, 231/232 and 253/254, with \<open>now\<close> the value of \<open>Date.now()\<close> there.
\<close>

definition cache_get :: "cache \<Rightarrow> int \<Rightarrow> js_value option" where
  "cache_get c now =
     (if truthy (cachedClientKey c) \<and> now - cachedAt c < 10 * 60 * 1000
      then Some (cachedClientKey c) else None)"

definition cache_set :: "cache \<Rightarrow> js_value \<Rightarrow> int \<Rightarrow> cache" where
  "cache_set c k now = c\<lparr>cachedClientKey := k, cachedAt := now\<rparr>"

text \<open>\<open>d?.client_key || d?.clientKey || d?.key\<close> (lines 191, 223, 244)\<close>

definition client_key_of :: "js_value \<Rightarrow> js_value" where
  "client_key_of d =
     js_or (js_or (js_get d (lit ''client_key'')) (js_get d (lit ''clientKey'')))
           (js_get d (lit ''key''))"

text \<open>\<open>await r.json().catch(() => ({}))\<close>\<close>

definition json_or_empty :: "js_value option \<Rightarrow> js_value" where
  "json_or_empty js = (case js of None \<Rightarrow> JObj [] | Some d \<Rightarrow> d)"

text \<open>
  \<open>v.includes(n)\<close> as line 214 calls it, on \<open>postData?.description || ""\<close>: a substring
  test on a string, a membership test on an array, and a TypeError on every other
  value, which has no \<open>includes\<close> method.
\<close>

definition js_includes :: "platform \<Rightarrow> js_value \<Rightarrow> js_string \<Rightarrow> js_error + bool" where
  "js_includes pf v n =
     (case v of
        JStr s \<Rightarrow> Inr (str_includes s n)
      | JArr xs \<Rightarrow> Inr (JStr n \<in> set xs)
      | _ \<Rightarrow> Inl (not_a_function pf))"

definition did_url :: js_string where
  "did_url = lit ''https://api.d-id.com/agents/client-key''"

text \<open>
  Lines 215 to 233, the recovery GET. \<open>calls\<close> are the calls issued before it,
  \<open>now\<close> is \<open>Date.now()\<close> at line 232.
\<close>

definition did_recover ::
  "cache \<Rightarrow> int \<Rightarrow> request list \<Rightarrow> request \<Rightarrow> fetch_result
     \<Rightarrow> (js_error + reply) \<times> cache \<times> request list" where
  "did_recover c now calls get_req g2 =
     (case g2 of
        Rejected err \<Rightarrow> (Inl err, c, calls @ [get_req])
      | Resolved st2 js2 \<Rightarrow>
          (let getData2 = json_or_empty js2;
               clientKey2 = client_key_of getData2
           in if \<not> ok st2 \<or> \<not> truthy clientKey2 then
                (Inr (Reply 502 (JObj
                   [(lit ''error'', JStr (lit ''did_error'')),
                    (lit ''message'', JStr (lit ''Client key exists but could not be fetched'')),
                    (lit ''details'', getData2)])),
                 c, calls @ [get_req])
              else
                (Inr (Reply 200 (JObj
                   [(lit ''clientKey'', clientKey2),
                    (lit ''note'', JStr (lit ''fetched_after_exists''))])),
                 cache_set c clientKey2 now, calls @ [get_req])))"

text \<open>
  Lines 200 to 255, from the POST on. The test of line 214 evaluates \<open>includes\<close>
  only when the POST is not ok.
\<close>

definition did_create ::
  "platform \<Rightarrow> cache \<Rightarrow> int \<Rightarrow> request \<Rightarrow> request \<Rightarrow> fetch_result \<Rightarrow> fetch_result
     \<Rightarrow> (js_error + reply) \<times> cache \<times> request list" where
  "did_create pf c now get_req post_req p g2 =
     (case p of
        Rejected err \<Rightarrow> (Inl err, c, [get_req, post_req])
      | Resolved pst pjs \<Rightarrow>
          (let postData = json_or_empty pjs
           in case (if \<not> ok pst
                    then js_includes pf (js_or (js_get postData (lit ''description'')) (JStr []))
                           (lit ''already exists'')
                    else Inr False) of
                Inl err \<Rightarrow> (Inl err, c, [get_req, post_req])
              | Inr True \<Rightarrow> did_recover c now [get_req, post_req] get_req g2
              | Inr False \<Rightarrow>
                  if \<not> ok pst then
                    (Inr (Reply 502 (JObj
                       [(lit ''error'', JStr (lit ''did_error'')),
                        (lit ''status'', JNum (of_nat pst)),
                        (lit ''details'', postData)])),
                     c, [get_req, post_req])
                  else
                    (let clientKey = client_key_of postData
                     in if \<not> truthy clientKey then
                          (Inr (Reply 502 (JObj
                             [(lit ''error'', JStr (lit ''did_error'')),
                              (lit ''message'', JStr (lit ''D-ID did not return a clientKey'')),
                              (lit ''details'', postData)])),
                           c, [get_req, post_req])
                        else
                          (Inr (Reply 200 (JObj [(lit ''clientKey'', clientKey)])),
                           cache_set c clientKey now, [get_req, post_req]))))"

text \<open>
  Lines 172 to 255, the \<open>try\<close> block. \<open>now_check\<close> is \<open>Date.now()\<close> at line 174 and
  \<open>now_store\<close> at the cache write; \<open>g1\<close>, \<open>p\<close> and \<open>g2\<close> are the outcomes of the first
  GET, the POST and the recovery GET, read only if the call is issued. The result
  is the reply or the exception, the cache afterwards, and the calls issued.
\<close>

definition did_client_key_try ::
  "env \<Rightarrow> platform \<Rightarrow> cache \<Rightarrow> int \<Rightarrow> int \<Rightarrow> fetch_result \<Rightarrow> fetch_result \<Rightarrow> fetch_result
     \<Rightarrow> (js_error + reply) \<times> cache \<times> request list" where
  "did_client_key_try e pf c now_check now_store g1 p g2 =
     (case cache_get c now_check of
        Some k \<Rightarrow>
          (Inr (Reply 200 (JObj [(lit ''clientKey'', k), (lit ''cached'', JBool True)])), c, [])
      | None \<Rightarrow>
     (case didBasicAuthHeader e pf of
        Inl err \<Rightarrow> (Inl err, c, [])
      | Inr authHeader \<Rightarrow>
          (let get_req = Request (lit ''GET'') did_url authHeader None;
               post_req = Request (lit ''POST'') did_url authHeader
                  (Some (JObj [(lit ''allowed_domains'', JArr [JStr (DID_ALLOWED_DOMAIN e)])]))
           in case g1 of
                Rejected err \<Rightarrow> (Inl err, c, [get_req])
              | Resolved st1 js1 \<Rightarrow>
                  if ok st1 \<and> truthy (client_key_of (json_or_empty js1)) then
                    (Inr (Reply 200 (JObj [(lit ''clientKey'', client_key_of (json_or_empty js1))])),
                     cache_set c (client_key_of (json_or_empty js1)) now_store, [get_req])
                  else did_create pf c now_store get_req post_req p g2)))"

text \<open>Lines 256 to 258: the \<open>catch\<close> of the handler.\<close>

definition did_client_key ::
  "env \<Rightarrow> platform \<Rightarrow> cache \<Rightarrow> int \<Rightarrow> int \<Rightarrow> fetch_result \<Rightarrow> fetch_result \<Rightarrow> fetch_result
     \<Rightarrow> reply \<times> cache \<times> request list" where
  "did_client_key e pf c now_check now_store g1 p g2 =
     (case did_client_key_try e pf c now_check now_store g1 p g2 of
        (Inl err, c', calls) \<Rightarrow> (server_error err, c', calls)
      | (Inr rep, c', calls) \<Rightarrow> (rep, c', calls))"

section \<open>The leaf texts of a rich-text document, as the specification words them\<close>




section \<open>Concrete inputs\<close>





text \<open>A configured environment, a platform, and an unconfigured environment.\<close>

definition env_ok :: env where
  "env_ok = \<lparr>VF_STATE_ID = lit ''st1'', VF_API_KEY = lit ''VF.key'',
              VF_RUNTIME_BASE = lit ''https://general-runtime.voiceflow.com'',
              DID_BASIC_USER = lit ''user'', DID_BASIC_PASS = lit ''pass'',
              DID_ALLOWED_DOMAIN = lit ''https://hadeai.agency''\<rparr>"

definition env_unset :: env where
  "env_unset = env_ok\<lparr>VF_STATE_ID := []\<rparr>"

definition pf0 :: platform where
  "pf0 = \<lparr>encodeURIComponent = Inr, base64 = id,
           not_a_function = TypeError (lit ''includes is not a function'')\<rparr>"

definition key_body :: "string \<Rightarrow> string \<Rightarrow> js_value" where
  "key_body field k = JObj [(lit field, JStr (lit k))]"

definition get0 :: request where
  "get0 = Request (lit ''GET'') did_url (lit ''Basic user:pass'') None"

definition post0 :: request where
  "post0 = Request (lit ''POST'') did_url (lit ''Basic user:pass'')
     (Some (JObj [(lit ''allowed_domains'', JArr [JStr (lit ''https://hadeai.agency'')])]))"


definition body_no_text :: js_value where
  "body_no_text = JObj [(lit ''sessionId'', JStr (lit ''s1''))]"


text \<open>Bodies of a failed create call, and a cache written at time 1000.\<close>

definition exists_body :: js_value where
  "exists_body =
     JObj [(lit ''kind'', JStr (lit ''ConflictError'')),
           (lit ''description'', JStr (lit ''Client key already exists for this user'')),
           (lit ''client_key'', JStr (lit ''from-post''))]"

definition quota_body :: js_value where
  "quota_body =
     JObj [(lit ''kind'', JStr (lit ''QuotaError'')),
           (lit ''description'', JStr (lit ''quota exceeded''))]"

definition number_body :: js_value where
  "number_body = JObj [(lit ''description'', JNum 5)]"

definition cache_X :: cache where
  "cache_X = \<lparr>cachedClientKey = JStr (lit ''X''), cachedAt = 1000\<rparr>"

section \<open>Basic facts\<close>


lemmas did_defs = did_client_key_def did_client_key_try_def did_create_def did_recover_def
  didBasicAuthHeader_def requireEnv_def cache_get_def cache_set_def client_key_of_def
  json_or_empty_def js_includes_def js_or_def ok_def server_error_def Let_def

lemmas did_inputs = env_ok_def pf0_def initial_cache_def get0_def post0_def key_body_def
  exists_body_def quota_body_def number_body_def cache_X_def did_url_def

lemma trim_Nil: "trim [] = []"
  by (simp add: trim_def)




section \<open>The reply extractor\<close>



lemma traces_loop_skip:
  "\<forall>t\<in>set ts. js_get t (lit ''type'') \<noteq> JStr (lit ''text'') \<Longrightarrow> traces_loop ts parts = parts"
  by (induction ts arbitrary: parts) (auto simp: trace_body_def)





text \<open>
  Claim C8. A value that is not an array yields the empty string, and so does an
  array in which no event has \<open>type\<close> equal to \<open>"text"\<close>.
\<close>

theorem extract_non_text_empty:
  "(\<not> isArray v \<longrightarrow> extractVoiceflowReply v = [])
   \<and> ((\<forall>t\<in>set ts. js_get t (lit ''type'') \<noteq> JStr (lit ''text''))
        \<longrightarrow> extractVoiceflowReply (JArr ts) = [])"
proof
  show "\<not> isArray v \<longrightarrow> extractVoiceflowReply v = []"
    by (cases v) (simp_all add: extractVoiceflowReply_def)
next
  show "(\<forall>t\<in>set ts. js_get t (lit ''type'') \<noteq> JStr (lit ''text''))
        \<longrightarrow> extractVoiceflowReply (JArr ts) = []"
    by (simp add: extractVoiceflowReply_def traces_loop_skip trim_Nil)
qed

theorem extract_non_text_empty_witness:
  "\<not> isArray (JObj [(lit ''type'', JStr (lit ''text''))])
   \<and> extractVoiceflowReply (JObj [(lit ''type'', JStr (lit ''text''))]) = []
   \<and> js_get (JObj [(lit ''type'', JStr (lit ''visual''))]) (lit ''type'') \<noteq> JStr (lit ''text'')
   \<and> js_get JNull (lit ''type'') \<noteq> JStr (lit ''text'')
   \<and> js_get (JStr (lit ''text'')) (lit ''type'') \<noteq> JStr (lit ''text'')
   \<and> extractVoiceflowReply
        (JArr [JObj [(lit ''type'', JStr (lit ''visual''))], JNull, JStr (lit ''text'')]) = []"
  using extract_non_text_empty [of "JObj [(lit ''type'', JStr (lit ''text''))]"
      "[JObj [(lit ''type'', JStr (lit ''visual''))], JNull, JStr (lit ''text'')]"]
  by (simp add: lit_def)


section \<open>The Voiceflow proxy\<close>

text \<open>
  Claim C10. The configuration check comes first: when \<open>VF_STATE_ID\<close> or
  \<open>VF_API_KEY\<close> is empty, every request, whatever its body, gets status 500 with
  error \<open>"server_error"\<close> and the message of the first missing variable, and no
  outbound call is made.
\<close>

theorem config_check_first:
  assumes "VF_STATE_ID e = [] \<or> VF_API_KEY e = []"
  shows "vf_reply e pf rbody r =
           (Reply 500 (JObj [(lit ''error'', JStr (lit ''server_error'')),
                             (lit ''message'', JStr (lit ''Missing env var: '' @
                                (if VF_STATE_ID e = [] then lit ''VF_STATE_ID'' else lit ''VF_API_KEY'')))]),
            [])"
  using assms
  by (auto simp: vf_reply_def vf_reply_try_def requireEnv_def server_error_def)

theorem config_check_first_witness:
  "(VF_STATE_ID env_unset = [] \<or> VF_API_KEY env_unset = [])
   \<and> js_get body_no_text (lit ''userText'') = JUndefined
   \<and> vf_reply env_unset pf0 body_no_text (Resolved 200 (Some (JArr []))) =
        (Reply 500 (JObj [(lit ''error'', JStr (lit ''server_error'')),
                          (lit ''message'', JStr (lit ''Missing env var: VF_STATE_ID''))]), [])"
proof -
  have h: "VF_STATE_ID env_unset = [] \<or> VF_API_KEY env_unset = []"
    by (simp add: env_unset_def)
  have g: "js_get body_no_text (lit ''userText'') = JUndefined"
    by (simp add: body_no_text_def lit_def)
  have "VF_STATE_ID env_unset = []" by (simp add: env_unset_def)
  then show ?thesis
    using h g config_check_first [OF h, of pf0 body_no_text "Resolved 200 (Some (JArr []))"]
    by (simp add: lit_def)
qed

text \<open>
  Claim C7, as the code has it. When \<open>VF_STATE_ID\<close> and \<open>VF_API_KEY\<close> are both set,
  a request whose \<open>userText\<close> is missing, empty or not a string, or whose \<open>sessionId\<close>
  is, gets status 400 with the error message naming the field (\<open>sessionId\<close> is
  checked first), and no outbound call is made.
\<close>

theorem missing_field_400:
  assumes "VF_STATE_ID e \<noteq> []" and "VF_API_KEY e \<noteq> []"
    and "\<not> (truthy (js_get rbody (lit ''userText'')) \<and> is_string (js_get rbody (lit ''userText'')))
       \<or> \<not> (truthy (js_get rbody (lit ''sessionId'')) \<and> is_string (js_get rbody (lit ''sessionId'')))"
  shows "vf_reply e pf rbody r =
           (Reply 400 (JObj [(lit ''error'', JStr
              (if truthy (js_get rbody (lit ''sessionId'')) \<and> is_string (js_get rbody (lit ''sessionId''))
               then lit ''userText is required (string)''
               else lit ''sessionId is required (string)''))]), [])"
proof -
  have b: "js_get (js_or rbody (JObj [])) k = js_get rbody k" for k
    by (cases rbody) (simp_all add: js_or_def)
  show ?thesis
    using assms
    by (auto simp: vf_reply_def vf_reply_try_def requireEnv_def b Let_def)
qed

theorem missing_field_400_witness:
  "VF_STATE_ID env_ok \<noteq> [] \<and> VF_API_KEY env_ok \<noteq> []
   \<and> \<not> (truthy (js_get body_no_text (lit ''userText''))
        \<and> is_string (js_get body_no_text (lit ''userText'')))
   \<and> vf_reply env_ok pf0 body_no_text (Resolved 200 (Some (JArr []))) =
       (Reply 400 (JObj [(lit ''error'', JStr (lit ''userText is required (string)''))]), [])"
proof -
  have h1: "VF_STATE_ID env_ok \<noteq> []" and h2: "VF_API_KEY env_ok \<noteq> []"
    by (simp_all add: env_ok_def lit_def)
  have h3: "\<not> (truthy (js_get body_no_text (lit ''userText''))
        \<and> is_string (js_get body_no_text (lit ''userText'')))"
    by (simp add: body_no_text_def lit_def)
  have h4: "truthy (js_get body_no_text (lit ''sessionId''))
        \<and> is_string (js_get body_no_text (lit ''sessionId''))"
    by (simp add: body_no_text_def lit_def)
  from h3 have h3': "\<not> (truthy (js_get body_no_text (lit ''userText''))
        \<and> is_string (js_get body_no_text (lit ''userText'')))
     \<or> \<not> (truthy (js_get body_no_text (lit ''sessionId''))
        \<and> is_string (js_get body_no_text (lit ''sessionId'')))" by blast
  show ?thesis
    using h1 h2 h3 h4 missing_field_400 [OF h1 h2 h3', of pf0 "Resolved 200 (Some (JArr []))"]
    by simp
qed

text \<open>
  Claim C7 as stated, for every request: with \<open>VF_STATE_ID\<close> unset, a body without
  \<open>userText\<close> gets 500, not 400.
\<close>

theorem missing_field_unconfigured_counterexample:
  "js_get body_no_text (lit ''userText'') = JUndefined
   \<and> status (fst (vf_reply env_unset pf0 body_no_text (Resolved 200 (Some (JArr []))))) = 500
   \<and> status (fst (vf_reply env_unset pf0 body_no_text (Resolved 200 (Some (JArr []))))) \<noteq> 400"
  by (simp add: vf_reply_def vf_reply_try_def requireEnv_def server_error_def env_unset_def
       body_no_text_def lit_def)




section \<open>The key cache and the key acquisition protocol\<close>


lemma did_recover_calls: "snd (snd (did_recover c now calls gr g2)) = calls @ [gr]"
  by (simp add: did_recover_def Let_def split: fetch_result.splits)

lemma did_create_calls: "snd (snd (did_create pf c now gr pr p g2)) \<noteq> []"
  by (simp add: did_create_def Let_def did_recover_calls split: fetch_result.splits sum.splits bool.splits)

text \<open>
  The first GET is issued exactly when the cache misses and both credentials are set.
\<close>

lemma first_get_issued_iff:
  "snd (snd (did_client_key e pf c now_check now_store g1 p g2)) \<noteq> [] \<longleftrightarrow>
     cache_get c now_check = None \<and> DID_BASIC_USER e \<noteq> [] \<and> DID_BASIC_PASS e \<noteq> []"
proof -
  have s: "snd (snd (did_client_key e pf c now_check now_store g1 p g2))
         = snd (snd (did_client_key_try e pf c now_check now_store g1 p g2))"
    by (simp add: did_client_key_def split: prod.splits sum.splits)
  show ?thesis
    unfolding s
    by (simp add: did_client_key_try_def didBasicAuthHeader_def requireEnv_def Let_def
        did_create_calls split: option.splits fetch_result.splits)
qed

text \<open>
  The reply carries \<open>cached: true\<close> exactly when the read of the cache yields a value.
\<close>

lemma cached_neq:
  "lit ''error'' \<noteq> lit ''cached''" "lit ''message'' \<noteq> lit ''cached''"
  "lit ''details'' \<noteq> lit ''cached''" "lit ''status'' \<noteq> lit ''cached''"
  "lit ''clientKey'' \<noteq> lit ''cached''" "lit ''note'' \<noteq> lit ''cached''"
  by (simp_all add: lit_def)

lemma did_recover_not_cached:
  "did_recover c now calls gr g2 = (Inr rep, c', calls') \<Longrightarrow>
     js_get (body rep) (lit ''cached'') = JUndefined"
  by (auto simp: did_recover_def Let_def cached_neq [symmetric] split: fetch_result.splits if_splits)

lemma did_create_not_cached:
  "did_create pf c now gr pr p g2 = (Inr rep, c', calls') \<Longrightarrow>
     js_get (body rep) (lit ''cached'') = JUndefined"
  apply (simp add: did_create_def Let_def split: fetch_result.splits)
  apply (auto simp: Let_def cached_neq [symmetric] split: sum.splits bool.splits if_splits
      dest!: did_recover_not_cached)
  done

lemma did_client_key_cached_iff:
  "js_get (body (fst (did_client_key e pf c now_check now_store g1 p g2))) (lit ''cached'') = JBool True
     \<longleftrightarrow> cache_get c now_check \<noteq> None"
proof (cases "cache_get c now_check")
  case (Some k)
  then show ?thesis
    by (simp add: did_client_key_def did_client_key_try_def cached_neq [symmetric])
next
  case None
  obtain res c' calls where t: "did_client_key_try e pf c now_check now_store g1 p g2 = (res, c', calls)"
    by (cases "did_client_key_try e pf c now_check now_store g1 p g2") auto
  have "js_get (body (fst (did_client_key e pf c now_check now_store g1 p g2))) (lit ''cached'') = JUndefined"
  proof (cases res)
    case (Inl err)
    then show ?thesis using t
      by (simp add: did_client_key_def server_error_def cached_neq [symmetric])
  next
    case (Inr rep)
    have "js_get (body rep) (lit ''cached'') = JUndefined"
      using t None unfolding Inr
      by (auto simp: did_client_key_try_def Let_def cached_neq [symmetric]
          split: sum.splits fetch_result.splits if_splits dest!: did_create_not_cached)
    then show ?thesis using t Inr by (simp add: did_client_key_def)
  qed
  then show ?thesis using None by simp
qed

text \<open>
  Claim C4. The read of the cache yields the cached value if and only if a value is
  present (truthy) and \<open>now - cachedAt\<close> is below 600000 milliseconds, the ten
  minutes of line 174, and the handler answers with the cache hit in exactly that
  case; after \<open>"X"\<close> is stored at \<open>t0\<close>, a read at \<open>now\<close> yields \<open>"X"\<close> when
  \<open>now - t0\<close> is below the TTL and nothing when it is the TTL or more.
\<close>

theorem cache_get_fresh_iff:
  "(cache_get c now = Some v \<longleftrightarrow>
      truthy (cachedClientKey c) \<and> v = cachedClientKey c \<and> now - cachedAt c < 600000)
   \<and> (js_get (body (fst (did_client_key e pf c now now_store g1 p g2))) (lit ''cached'') = JBool True
        \<longleftrightarrow> truthy (cachedClientKey c) \<and> now - cachedAt c < 600000)
   \<and> (now - t0 < 600000 \<longrightarrow>
        cache_get (cache_set c (JStr (lit ''X'')) t0) now = Some (JStr (lit ''X'')))
   \<and> (600000 \<le> now - t0 \<longrightarrow> cache_get (cache_set c (JStr (lit ''X'')) t0) now = None)"
proof -
  have rd: "cache_get c now = Some v \<longleftrightarrow>
      truthy (cachedClientKey c) \<and> v = cachedClientKey c \<and> now - cachedAt c < 600000"
    by (auto simp: cache_get_def)
  have "cache_get c now \<noteq> None \<longleftrightarrow> truthy (cachedClientKey c) \<and> now - cachedAt c < 600000"
    by (simp add: cache_get_def)
  then have hd: "js_get (body (fst (did_client_key e pf c now now_store g1 p g2))) (lit ''cached'')
        = JBool True \<longleftrightarrow> truthy (cachedClientKey c) \<and> now - cachedAt c < 600000"
    by (simp only: did_client_key_cached_iff)
  have x: "truthy (JStr (lit ''X''))"
    by (simp add: lit_def)
  have fresh: "now - t0 < 600000 \<longrightarrow>
        cache_get (cache_set c (JStr (lit ''X'')) t0) now = Some (JStr (lit ''X''))"
    using x by (simp add: cache_get_def cache_set_def)
  have stale: "600000 \<le> now - t0 \<longrightarrow> cache_get (cache_set c (JStr (lit ''X'')) t0) now = None"
    by (simp add: cache_get_def cache_set_def)
  show ?thesis
    using rd hd fresh stale by blast
qed

theorem cache_get_fresh_iff_witness:
  "cache_get (cache_set initial_cache (JStr (lit ''X'')) 1000) 600999 = Some (JStr (lit ''X''))
   \<and> cache_get (cache_set initial_cache (JStr (lit ''X'')) 1000) 601000 = None
   \<and> cache_get initial_cache 5 = None
   \<and> js_get (body (fst (did_client_key env_ok pf0 cache_X 600999 601000 (Resolved 404 None)
          (Resolved 404 None) (Resolved 404 None)))) (lit ''cached'') = JBool True
   \<and> js_get (body (fst (did_client_key env_ok pf0 cache_X 601000 601000 (Resolved 404 None)
          (Resolved 404 None) (Resolved 404 None)))) (lit ''cached'') \<noteq> JBool True"
proof -
  have "cache_get initial_cache 5 \<noteq> Some v" for v
    using cache_get_fresh_iff [where c = initial_cache and now = 5 and v = v]
    by (simp add: initial_cache_def)
  then have a: "cache_get initial_cache 5 = None"
    by (cases "cache_get initial_cache 5") auto
  have b: "cache_get (cache_set initial_cache (JStr (lit ''X'')) 1000) 600999 = Some (JStr (lit ''X''))"
    using cache_get_fresh_iff [where c = initial_cache and now = 600999 and ?t0.0 = 1000] by simp
  have c: "cache_get (cache_set initial_cache (JStr (lit ''X'')) 1000) 601000 = None"
    using cache_get_fresh_iff [where c = initial_cache and now = 601000 and ?t0.0 = 1000] by simp
  have d: "js_get (body (fst (did_client_key env_ok pf0 cache_X 600999 601000 (Resolved 404 None)
          (Resolved 404 None) (Resolved 404 None)))) (lit ''cached'') = JBool True"
    using cache_get_fresh_iff [where c = cache_X and now = 600999 and e = env_ok and pf = pf0
        and now_store = 601000 and ?g1.0 = "Resolved 404 None" and p = "Resolved 404 None"
        and ?g2.0 = "Resolved 404 None"]
    by (simp add: cache_X_def lit_def)
  have e: "js_get (body (fst (did_client_key env_ok pf0 cache_X 601000 601000 (Resolved 404 None)
          (Resolved 404 None) (Resolved 404 None)))) (lit ''cached'') \<noteq> JBool True"
    using cache_get_fresh_iff [where c = cache_X and now = 601000 and e = env_ok and pf = pf0
        and now_store = 601000 and ?g1.0 = "Resolved 404 None" and p = "Resolved 404 None"
        and ?g2.0 = "Resolved 404 None"]
    by (simp add: cache_X_def lit_def)
  show ?thesis
    using a b c d e by simp
qed

text \<open>
  Claim C5. While the cache holds a fresh value, the handler answers 200 with that
  value as \<open>clientKey\<close> and \<open>cached: true\<close>, leaves the cache as it is, and issues no
  outbound call, whatever the environment and whatever the upstream would answer.
\<close>

theorem cache_hit_no_calls:
  assumes "truthy (cachedClientKey c)" and "now_check - cachedAt c < 10 * 60 * 1000"
  shows "did_client_key e pf c now_check now_store g1 p g2 =
           (Reply 200 (JObj [(lit ''clientKey'', cachedClientKey c), (lit ''cached'', JBool True)]),
            c, [])"
  using assms by (simp add: did_client_key_def did_client_key_try_def cache_get_def)

theorem cache_hit_no_calls_witness:
  "truthy (cachedClientKey cache_X) \<and> 600999 - cachedAt cache_X < 10 * 60 * 1000
   \<and> did_client_key env_ok pf0 cache_X 600999 601000 (Resolved 200 (Some (key_body ''key'' ''k1'')))
        (Rejected (Error [])) (Rejected (Error [])) =
       (Reply 200 (JObj [(lit ''clientKey'', JStr (lit ''X'')), (lit ''cached'', JBool True)]),
        cache_X, [])"
proof -
  have h1: "truthy (cachedClientKey cache_X)" by (simp add: cache_X_def lit_def)
  have h2: "600999 - cachedAt cache_X < 10 * 60 * 1000" by (simp add: cache_X_def)
  show ?thesis
    using h1 h2 cache_hit_no_calls [OF h1 h2, of env_ok pf0 601000 "Resolved 200 (Some (key_body ''key'' ''k1''))"
        "Rejected (Error [])" "Rejected (Error [])"]
    by (simp add: cache_X_def)
qed






text \<open>Where each stage of the protocol can leave the cache and the reply.\<close>

lemma did_recover_cases:
  "did_recover c now calls gr g2 = (res, c', calls') \<Longrightarrow>
     calls' = calls @ [gr] \<and>
     ((c' = c \<and> (\<forall>rep. res = Inr rep \<longrightarrow> status rep = 502))
      \<or> (\<exists>k. truthy k \<and> c' = cache_set c k now \<and>
              res = Inr (Reply 200 (JObj [(lit ''clientKey'', k),
                                          (lit ''note'', JStr (lit ''fetched_after_exists''))]))))"
  by (auto simp: did_recover_def Let_def split: fetch_result.splits if_splits)

lemma did_create_cases:
  "did_create pf c now gr pr p g2 = (res, c', calls') \<Longrightarrow>
     ((c' = c \<and> (\<forall>rep. res = Inr rep \<longrightarrow> status rep = 502))
      \<or> (\<exists>k. truthy k \<and> c' = cache_set c k now \<and>
              (res = Inr (Reply 200 (JObj [(lit ''clientKey'', k),
                                          (lit ''note'', JStr (lit ''fetched_after_exists''))]))
               \<or> res = Inr (Reply 200 (JObj [(lit ''clientKey'', k)])))))"
  apply (simp add: did_create_def Let_def split: fetch_result.splits)
  apply (auto simp: Let_def split: sum.splits bool.splits if_splits dest!: did_recover_cases)
  done

lemma did_try_cases:
  "did_client_key_try e pf c nc ns g1 p g2 = (res, c', calls') \<Longrightarrow>
     ((c' = c \<and> (\<forall>rep. res = Inr rep \<longrightarrow> status rep = 502 \<or>
           rep = Reply 200 (JObj [(lit ''clientKey'', cachedClientKey c), (lit ''cached'', JBool True)])))
      \<or> (\<exists>k. truthy k \<and> c' = cache_set c k ns \<and>
              (res = Inr (Reply 200 (JObj [(lit ''clientKey'', k),
                                          (lit ''note'', JStr (lit ''fetched_after_exists''))]))
               \<or> res = Inr (Reply 200 (JObj [(lit ''clientKey'', k)])))))"
  apply (simp add: did_client_key_try_def Let_def cache_get_def split: option.splits if_splits sum.splits fetch_result.splits)
  apply (auto simp: Let_def split: if_splits dest!: did_create_cases)
  done

text \<open>
  Claim C9. Whenever the handler answers with a status other than 200 (the 502 of a
  failed or keyless recovery GET, of a POST failed for another reason, of a POST
  that is ok without a key, and the 500 of a thrown error), the cache is as before.
  Whenever the cache has changed, the answer is a 200 whose \<open>clientKey\<close> is truthy
  and is the value stored, with the time of the write, and it is not the cache hit.
\<close>

theorem failure_keeps_cache:
  assumes "did_client_key e pf c now_check now_store g1 p g2 = (rep, c', calls)"
  shows "(status rep \<noteq> 200 \<longrightarrow> c' = c)
       \<and> (c' \<noteq> c \<longrightarrow>
            status rep = 200 \<and> truthy (js_get (body rep) (lit ''clientKey''))
            \<and> js_get (body rep) (lit ''cached'') = JUndefined
            \<and> c' = cache_set c (js_get (body rep) (lit ''clientKey'')) now_store)"
proof -
  obtain res where t: "did_client_key_try e pf c now_check now_store g1 p g2 = (res, c', calls)"
    and r: "rep = (case res of Inl err \<Rightarrow> server_error err | Inr x \<Rightarrow> x)"
    using assms by (auto simp: did_client_key_def split: prod.splits sum.splits)
  have ne: "lit ''clientKey'' \<noteq> lit ''cached''" "lit ''note'' \<noteq> lit ''cached''"
    by (simp_all add: lit_def)
  from did_try_cases [OF t] show ?thesis
  proof
    assume a: "c' = c \<and> (\<forall>rep. res = Inr rep \<longrightarrow> status rep = 502 \<or>
           rep = Reply 200 (JObj [(lit ''clientKey'', cachedClientKey c), (lit ''cached'', JBool True)]))"
    then show ?thesis by simp
  next
    assume "\<exists>k. truthy k \<and> c' = cache_set c k now_store \<and>
              (res = Inr (Reply 200 (JObj [(lit ''clientKey'', k),
                                          (lit ''note'', JStr (lit ''fetched_after_exists''))]))
               \<or> res = Inr (Reply 200 (JObj [(lit ''clientKey'', k)])))"
    then show ?thesis using r ne by auto
  qed
qed

theorem failure_keeps_cache_witness:
  "did_client_key env_ok pf0 initial_cache 5 7 (Resolved 404 None) (Resolved 500 (Some quota_body))
       (Rejected (Error [])) =
     (Reply 502 (JObj [(lit ''error'', JStr (lit ''did_error'')), (lit ''status'', JNum 500),
                       (lit ''details'', quota_body)]), initial_cache, [get0, post0])
   \<and> did_client_key env_ok pf0 initial_cache 5 7 (Resolved 200 (Some (key_body ''key'' ''k1'')))
       (Rejected (Error [])) (Rejected (Error [])) =
     (Reply 200 (JObj [(lit ''clientKey'', JStr (lit ''k1''))]),
      \<lparr>cachedClientKey = JStr (lit ''k1''), cachedAt = 7\<rparr>, [get0])
   \<and> \<lparr>cachedClientKey = JStr (lit ''k1''), cachedAt = 7\<rparr> \<noteq> initial_cache
   \<and> \<lparr>cachedClientKey = JStr (lit ''k1''), cachedAt = 7\<rparr>
       = cache_set initial_cache (JStr (lit ''k1'')) 7"
proof -
  have f: "did_client_key env_ok pf0 initial_cache 5 7 (Resolved 404 None) (Resolved 500 (Some quota_body))
       (Rejected (Error [])) =
     (Reply 502 (JObj [(lit ''error'', JStr (lit ''did_error'')), (lit ''status'', JNum 500),
                       (lit ''details'', quota_body)]), initial_cache, [get0, post0])"
    by (simp add: did_defs did_inputs lit_def)
  have s: "did_client_key env_ok pf0 initial_cache 5 7 (Resolved 200 (Some (key_body ''key'' ''k1'')))
       (Rejected (Error [])) (Rejected (Error [])) =
     (Reply 200 (JObj [(lit ''clientKey'', JStr (lit ''k1''))]),
      \<lparr>cachedClientKey = JStr (lit ''k1''), cachedAt = 7\<rparr>, [get0])"
    by (simp add: did_defs did_inputs lit_def)
  show ?thesis
    using failure_keeps_cache [OF f] failure_keeps_cache [OF s] f s
    by (simp add: initial_cache_def cache_set_def)
qed

end
